theory Spec2Isabelle
  imports Complex_Main
begin

section \<open>Benchmark runner adapter (bisection\_detection.py, BisectionNodeTester)\<close>

text \<open>
  A finite Python float is modelled by the real number it denotes, and a comparison of two
  floats is the comparison of these numbers; a value that may be \<open>None\<close> is an option.
  The external benchmark (mpirun, the output file and the bandwidth parser) is an
  oracle: it is asked with the number of tests already recorded, the node list and the
  test name, and answers with what \<open>subprocess.run\<close> and \<open>_parse_bandwidth\<close> gave.
  Time stamps and printing are left out.
\<close>

type_synonym node = string

datatype test_name = Baseline | Single_node_depth nat | Group_depth nat | Pair_number nat

datatype outcome =
    Completed int "real option"
  | Timeout_expired
  | Raised string

type_synonym benchmark = "nat \<Rightarrow> node list \<Rightarrow> test_name \<Rightarrow> outcome"

record test_result =
  nodes :: "node list"
  node_count :: nat
  test_name :: test_name
  success :: bool
  return_code :: "int option"
  bandwidth_gb_s :: "real option"
  is_good :: bool
  is_good_numpy :: bool
  error :: "string option"

record tester =
  hosts :: "node list"
  threshold_gb_s :: "real option"
  test_history :: "test_result list"
  bad_nodes :: "node set"
  good_nodes :: "node set"

text \<open>Python truth value of an optional float: \<open>None\<close> and \<open>0.0\<close> are false.\<close>

definition truthy :: "real option \<Rightarrow> bool" where
  "truthy v = (case v of None \<Rightarrow> False | Some x \<Rightarrow> x \<noteq> 0)"

text \<open>The verdict of lines 136--139: \<open>if bandwidth and self.threshold_gb_s\<close>.\<close>

definition verdict :: "real option \<Rightarrow> real option \<Rightarrow> bool \<Rightarrow> bool" where
  "verdict bandwidth threshold ok =
     (case bandwidth of
        None \<Rightarrow> ok
      | Some bw \<Rightarrow>
          (case threshold of
             None \<Rightarrow> ok
           | Some thr \<Rightarrow> if bw \<noteq> 0 \<and> thr \<noteq> 0 then thr \<le> bw else ok))"

text \<open>
  The result dictionary that \<open>_run_nccl_test\<close> builds for one invocation. The parsed
  bandwidth is a numpy float, so \<open>bandwidth >= self.threshold_gb_s\<close> is a numpy boolean and
  not a Python \<open>bool\<close>; \<open>is_good_numpy\<close> records that \<open>is_good\<close> came from this comparison.
\<close>

definition nccl_result :: "real option \<Rightarrow> node list \<Rightarrow> test_name \<Rightarrow> outcome \<Rightarrow> test_result" where
  "nccl_result threshold ns nm oc =
     (case oc of
        Completed rc bandwidth \<Rightarrow>
          \<lparr>nodes = ns, node_count = length ns, test_name = nm, success = (rc = 0),
           return_code = Some rc, bandwidth_gb_s = bandwidth,
           is_good = verdict bandwidth threshold (rc = 0),
           is_good_numpy = (truthy bandwidth \<and> truthy threshold), error = None\<rparr>
      | Timeout_expired \<Rightarrow>
          \<lparr>nodes = ns, node_count = length ns, test_name = nm, success = False,
           return_code = None, bandwidth_gb_s = None,
           is_good = False, is_good_numpy = False, error = Some ''Test timeout''\<rparr>
      | Raised msg \<Rightarrow>
          \<lparr>nodes = ns, node_count = length ns, test_name = nm, success = False,
           return_code = None, bandwidth_gb_s = None,
           is_good = False, is_good_numpy = False, error = Some msg\<rparr>)"

definition run_nccl_test :: "benchmark \<Rightarrow> node list \<Rightarrow> test_name \<Rightarrow> tester \<Rightarrow> test_result \<times> tester" where
  "run_nccl_test bench ns nm st =
     (let result = nccl_result (threshold_gb_s st) ns nm (bench (length (test_history st)) ns nm)
      in (result, st\<lparr>test_history := test_history st @ [result]\<rparr>))"

section \<open>Bisection search controller\<close>

function bisect_test :: "benchmark \<Rightarrow> node list \<Rightarrow> nat \<Rightarrow> tester \<Rightarrow> node set \<times> tester" where
  "bisect_test bench ns depth st =
     (if length ns = 0 then ({}, st)
      else if length ns = 1 then
        (case run_nccl_test bench ns (Single_node_depth depth) st of
           (result, st1) \<Rightarrow>
             if \<not> is_good result then ({ns ! 0}, st1) else ({}, st1))
      else
        (case run_nccl_test bench ns (Group_depth depth) st of
           (result, st1) \<Rightarrow>
             if is_good result then ({}, st1\<lparr>good_nodes := good_nodes st1 \<union> set ns\<rparr>)
             else
               (let mid = length ns div 2;
                    left_nodes = take mid ns;
                    right_nodes = drop mid ns
                in case bisect_test bench left_nodes (depth + 1) st1 of
                     (left_bad, st2) \<Rightarrow>
                       (case bisect_test bench right_nodes (depth + 1) st2 of
                          (right_bad, st3) \<Rightarrow> (left_bad \<union> right_bad, st3)))))"
  by pat_completeness auto
termination
proof (relation "measure (\<lambda>(bench, ns, depth, st). length ns)", goal_cases)
  case (3 bench ns depth st result st1 mid left_nodes right_nodes left_bad st2)
  from 3(1,2) have "length ns - length ns div 2 < length ns"
    by arith
  with 3 show ?case by simp
qed auto

declare bisect_test.simps [simp del]

section \<open>Double precision arithmetic\<close>

text \<open>
  The product \<open>baseline["bandwidth_gb_s"] * 0.8\<close> is a product of IEEE 754 doubles: the
  exact product, rounded to the nearest double, ties to the even significand. A double
  has a significand of 53 bits and a least exponent of \<open>-1074\<close> for its last bit. The
  literal \<open>0.8\<close> is the double nearest to 4/5. A product by \<open>0.8\<close> is smaller than its
  factor, so it does not overflow.
\<close>

definition round_half_even :: "real \<Rightarrow> int" where
  "round_half_even y =
     (let f = \<lfloor>y\<rfloor>
      in if y - real_of_int f < 1 / 2 then f
         else if y - real_of_int f > 1 / 2 then f + 1
         else if even f then f else f + 1)"

definition double_exponent :: "real \<Rightarrow> int" where
  "double_exponent x = max (\<lfloor>log 2 \<bar>x\<bar>\<rfloor> - 52) (- 1074)"

definition round_double :: "real \<Rightarrow> real" where
  "round_double x =
     (if x = 0 then 0
      else real_of_int (round_half_even (x / 2 powi double_exponent x)) * 2 powi double_exponent x)"

definition float_mul :: "real \<Rightarrow> real \<Rightarrow> real" where
  "float_mul x y = round_double (x * y)"

section \<open>The bisection run and its report\<close>

text \<open>
  \<open>run_bisection_detection\<close>: the optional baseline on \<open>self.hosts[:2]\<close>, the top-level
  bisection and the report. \<open>list(bad_nodes)\<close> has no defined order, so the report keeps
  the sets. \<open>json.dump\<close> writes the report with the whole test history; it raises
  \<open>TypeError\<close> on a numpy boolean, and nothing catches it, so no report is returned then.
  The tester keeps the history in either case.
\<close>

datatype py_error = ValueError | TypeError

record report =
  report_total_nodes :: nat
  report_total_tests :: nat
  report_threshold_gb_s :: "real option"
  report_bad_nodes :: "node set"
  report_good_nodes :: "node set"
  report_test_history :: "test_result list"

definition establish_threshold :: "benchmark \<Rightarrow> tester \<Rightarrow> tester" where
  "establish_threshold bench st =
     (if \<not> truthy (threshold_gb_s st) then
        (case run_nccl_test bench (take 2 (hosts st)) Baseline st of
           (baseline, st1) \<Rightarrow>
             if truthy (bandwidth_gb_s baseline)
             then st1\<lparr>threshold_gb_s :=
                       map_option (\<lambda>bw. float_mul bw (round_double 0.8)) (bandwidth_gb_s baseline)\<rparr>
             else st1)
      else st)"

definition run_bisection_detection :: "benchmark \<Rightarrow> tester \<Rightarrow> (py_error + report) \<times> tester" where
  "run_bisection_detection bench st =
     (let st1 = establish_threshold bench st
      in case bisect_test bench (hosts st1) 0 st1 of
           (bad, st2) \<Rightarrow>
             (if list_ex is_good_numpy (test_history st2) then Inl TypeError
              else Inr \<lparr>report_total_nodes = length (hosts st2),
                        report_total_tests = length (test_history st2),
                        report_threshold_gb_s = threshold_gb_s st2,
                        report_bad_nodes = bad,
                        report_good_nodes = good_nodes st2,
                        report_test_history = test_history st2\<rparr>,
              st2))"

text \<open>\<open>BisectionNodeTester.__init__\<close> after the host file has been parsed.\<close>

definition new_tester :: "node list \<Rightarrow> real option \<Rightarrow> tester" where
  "new_tester hs threshold =
     \<lparr>hosts = hs, threshold_gb_s = threshold, test_history = [], bad_nodes = {}, good_nodes = {}\<rparr>"

section \<open>Statistics of numpy\<close>

text \<open>
  Modelled from the spec: \<open>np.mean\<close>, \<open>np.std\<close> and \<open>np.percentile\<close> are functions of the
  numpy library, which is not part of the source. They are the population mean, the
  population standard deviation and the linear-interpolated percentile of the standard
  definition: with the samples sorted and \<open>h = (n - 1) * q / 100\<close>, the value at \<open>\<lfloor>h\<rfloor>\<close>
  plus the fraction of \<open>h\<close> times the step to the next value. All are taken in exact
  arithmetic; numpy computes them in doubles, so its values can differ from these in the
  last bits, and a comparison that such bits decide can come out differently.
\<close>

definition np_mean :: "real list \<Rightarrow> real" where
  "np_mean xs = sum_list xs / real (length xs)"

definition np_std :: "real list \<Rightarrow> real" where
  "np_std xs = sqrt (np_mean (map (\<lambda>x. (x - np_mean xs)\<^sup>2) xs))"

definition np_percentile :: "real list \<Rightarrow> real \<Rightarrow> real" where
  "np_percentile xs q =
     (let a = sort xs;
          h = real (length xs - 1) * q / 100;
          lo = nat \<lfloor>h\<rfloor>;
          hi = min (lo + 1) (length xs - 1)
      in a ! lo + (h - real lo) * (a ! hi - a ! lo))"

section \<open>Pairwise test matrix (PairwiseNodeTester)\<close>

text \<open>A Python dict in insertion order: assigning to a present key keeps its place.\<close>

fun dict_set :: "('k \<times> 'v) list \<Rightarrow> 'k \<Rightarrow> 'v \<Rightarrow> ('k \<times> 'v) list" where
  "dict_set [] k v = [(k, v)]"
| "dict_set ((k', v') # kvs) k v =
     (if k' = k then (k, v) # kvs else (k', v') # dict_set kvs k v)"

text \<open>\<open>itertools.combinations(hosts, 2)\<close>.\<close>

fun combinations2 :: "'a list \<Rightarrow> ('a \<times> 'a) list" where
  "combinations2 [] = []"
| "combinations2 (x # xs) = map (\<lambda>y. (x, y)) xs @ combinations2 xs"

record pair_result =
  pair_nodes :: "node list"
  pair_bandwidth_gb_s :: "real option"
  pair_success :: bool

text \<open>The key \<open>f"{node1}\<leftrightarrow>{node2}"\<close>; the arrow U+2194 is three bytes in UTF-8.\<close>

definition pair_key :: "node \<Rightarrow> node \<Rightarrow> string" where
  "pair_key node1 node2 = node1 @ [CHR 0xE2, CHR 0x86, CHR 0x94] @ node2"

fun run_pairs ::
  "benchmark \<Rightarrow> (node \<times> node) list \<Rightarrow> nat \<Rightarrow> tester \<Rightarrow> (string \<times> pair_result) list
     \<Rightarrow> (string \<times> pair_result) list" where
  "run_pairs bench [] i st results = results"
| "run_pairs bench ((node1, node2) # ps) i st results =
     (case run_nccl_test bench [node1, node2] (Pair_number i) st of
        (result, st1) \<Rightarrow>
          run_pairs bench ps (i + 1) st1
            (dict_set results (pair_key node1 node2)
               \<lparr>pair_nodes = [node1, node2],
                pair_bandwidth_gb_s = bandwidth_gb_s result,
                pair_success = success result\<rparr>))"

record node_stat =
  bandwidths :: "real list"
  failures :: nat
  tests :: nat

record node_statistic =
  average_bandwidth_gb_s :: real
  std_bandwidth_gb_s :: real
  failure_count :: nat
  total_tests :: nat
  failure_rate :: real

record problematic_node =
  problematic_name :: node
  problematic_average_bandwidth_gb_s :: real
  problematic_failure_rate :: real
  problematic_reason :: string

record analysis =
  node_statistics :: "(node \<times> node_statistic) list"
  problematic_nodes :: "problematic_node list"
  overall_mean_bandwidth :: "real option"
  overall_std_bandwidth :: "real option"
  threshold_bandwidth :: "real option"

text \<open>One pass of the inner loop (lines 395--400) for one node of one pair.\<close>

definition add_sample :: "real option \<Rightarrow> bool \<Rightarrow> (node \<times> node_stat) list \<Rightarrow> node \<Rightarrow> (node \<times> node_stat) list" where
  "add_sample bw ok stats n =
     (let s0 = (case map_of stats n of
                  None \<Rightarrow> \<lparr>bandwidths = [], failures = 0, tests = 0\<rparr>
                | Some s \<Rightarrow> s);
          s1 = s0\<lparr>tests := tests s0 + 1\<rparr>;
          s2 = (case bw of
                  None \<Rightarrow> s1
                | Some b \<Rightarrow> if b \<noteq> 0 then s1\<lparr>bandwidths := bandwidths s1 @ [b]\<rparr> else s1);
          s3 = (if \<not> ok then s2\<lparr>failures := failures s2 + 1\<rparr> else s2)
      in dict_set stats n s3)"

definition collect_node_stats :: "(string \<times> pair_result) list \<Rightarrow> (node \<times> node_stat) list" where
  "collect_node_stats results =
     foldl (\<lambda>stats (key, r). foldl (add_sample (pair_bandwidth_gb_s r) (pair_success r)) stats (pair_nodes r))
       [] results"

definition node_statistic_of :: "node_stat \<Rightarrow> node_statistic" where
  "node_statistic_of s =
     \<lparr>average_bandwidth_gb_s = np_mean (bandwidths s),
      std_bandwidth_gb_s = np_std (bandwidths s),
      failure_count = failures s,
      total_tests = tests s,
      failure_rate = (if tests s > 0 then real (failures s) / real (tests s) else 0)\<rparr>"

definition is_problematic :: "real \<Rightarrow> node_statistic \<Rightarrow> bool" where
  "is_problematic threshold s = (average_bandwidth_gb_s s < threshold \<or> failure_rate s > 0.2)"

definition problematic_entry :: "real \<Rightarrow> node \<times> node_statistic \<Rightarrow> problematic_node" where
  "problematic_entry threshold e =
     \<lparr>problematic_name = fst e,
      problematic_average_bandwidth_gb_s = average_bandwidth_gb_s (snd e),
      problematic_failure_rate = failure_rate (snd e),
      problematic_reason =
        (if average_bandwidth_gb_s (snd e) < threshold then ''Low bandwidth'' else ''High failure rate'')\<rparr>"

definition analyze_pairwise_results :: "(string \<times> pair_result) list \<Rightarrow> analysis" where
  "analyze_pairwise_results results =
     (let stats = map (\<lambda>(n, s). (n, node_statistic_of s))
                    (filter (\<lambda>(n, s). bandwidths s \<noteq> []) (collect_node_stats results));
          all_avg_bw = map (\<lambda>(n, s). average_bandwidth_gb_s s) stats
      in if all_avg_bw \<noteq> [] then
           (let mean_bw = np_mean all_avg_bw;
                std_bw = np_std all_avg_bw;
                threshold = mean_bw - 2 * std_bw
            in \<lparr>node_statistics = stats,
                problematic_nodes =
                  map (problematic_entry threshold) (filter (\<lambda>e. is_problematic threshold (snd e)) stats),
                overall_mean_bandwidth = Some mean_bw,
                overall_std_bandwidth = Some std_bw,
                threshold_bandwidth = Some threshold\<rparr>)
         else
           \<lparr>node_statistics = stats, problematic_nodes = [],
            overall_mean_bandwidth = None, overall_std_bandwidth = None,
            threshold_bandwidth = None\<rparr>)"

text \<open>
  \<open>run_pairwise_tests\<close>. \<open>random.sample\<close> is a parameter; it raises \<open>ValueError\<close> on a
  negative size, which nothing in the program catches. The tester of the pairs has no
  threshold, so every \<open>is_good\<close> is a Python \<open>bool\<close> and the pairwise report is written.
\<close>

type_synonym sampler = "(node \<times> node) list \<Rightarrow> nat \<Rightarrow> (node \<times> node) list"

definition run_pairwise_tests ::
  "benchmark \<Rightarrow> sampler \<Rightarrow> node list \<Rightarrow> int option \<Rightarrow> py_error + analysis" where
  "run_pairwise_tests bench sample hs max_pairs =
     (let all_pairs = combinations2 hs;
          limited = (case max_pairs of
                       None \<Rightarrow> False
                     | Some m \<Rightarrow> m \<noteq> 0 \<and> int (length all_pairs) > m)
      in if limited \<and> (case max_pairs of None \<Rightarrow> False | Some m \<Rightarrow> m < 0) then Inl ValueError
         else
           (let pairs = (case max_pairs of
                           None \<Rightarrow> all_pairs
                         | Some m \<Rightarrow> if limited then sample all_pairs (nat m) else all_pairs)
            in Inr (analyze_pairwise_results (run_pairs bench pairs 1 (new_tester hs None) []))))"

section \<open>The command line program (bisection\_detection.py, main)\<close>

datatype mode = Bisection | Pairwise | Both

record args =
  arg_mode :: mode
  arg_threshold :: "real option"
  arg_max_pairs :: "int option"

text \<open>The set \<open>bad_nodes\<close> that the final summary collects from the two reports.\<close>

definition final_bad_nodes :: "report option \<Rightarrow> analysis option \<Rightarrow> node set" where
  "final_bad_nodes bisection pairwise_report =
     (case bisection of None \<Rightarrow> {} | Some r \<Rightarrow> report_bad_nodes r)
     \<union> (case pairwise_report of None \<Rightarrow> {} | Some a \<Rightarrow> set (map problematic_name (problematic_nodes a)))"

text \<open>
  The two detection runs of \<open>main\<close>, the bisection first. An exception of either run is
  not caught: it ends the program there, before the other run and before the summary.
\<close>

definition detection_results ::
  "benchmark \<Rightarrow> sampler \<Rightarrow> node list \<Rightarrow> args \<Rightarrow> py_error + report option \<times> analysis option" where
  "detection_results bench sample hs a =
     (case (if arg_mode a = Bisection \<or> arg_mode a = Both
            then (case fst (run_bisection_detection bench (new_tester hs (arg_threshold a))) of
                    Inl e \<Rightarrow> Inl e
                  | Inr r \<Rightarrow> Inr (Some r))
            else Inr None) of
        Inl e \<Rightarrow> Inl e
      | Inr bisection \<Rightarrow>
          if arg_mode a = Pairwise \<or> arg_mode a = Both then
            (case run_pairwise_tests bench sample hs (arg_max_pairs a) of
               Inl e \<Rightarrow> Inl e
             | Inr pairwise_report \<Rightarrow> Inr (bisection, Some pairwise_report))
          else Inr (bisection, None))"

text \<open>
  The exit status of \<open>main\<close>. The host file is \<open>None\<close> when the path does not exist and
  the parsed roster otherwise. An exception that nothing catches ends Python with status 1.
\<close>

definition main :: "benchmark \<Rightarrow> sampler \<Rightarrow> node list option \<Rightarrow> args \<Rightarrow> int" where
  "main bench sample hostfile a =
     (case hostfile of
        None \<Rightarrow> 1
      | Some hs \<Rightarrow>
          (case detection_results bench sample hs a of
             Inl e \<Rightarrow> 1
           | Inr (bisection, pairwise_report) \<Rightarrow>
               if final_bad_nodes bisection pairwise_report \<noteq> {} then 1 else 0))"

section \<open>Outlier detector (detect\_slow\_nodes.py, SlowNodeDetector)\<close>

text \<open>
  The two detectors, in the exact arithmetic of the statistics above. They decide as the
  program does wherever rounding does not decide a comparison; on samples that are all the
  same the exact standard deviation is 0, while the rounded one of the program need not be.
\<close>

definition detect_outliers_zscore :: "real list \<Rightarrow> real \<Rightarrow> nat list" where
  "detect_outliers_zscore values threshold =
     (if length values < 3 then []
      else
        (let mean = np_mean values; std = np_std values
         in if std = 0 then []
            else filter (\<lambda>i. \<bar>(values ! i - mean) / std\<bar> > threshold) [0..<length values]))"

definition detect_outliers_iqr :: "real list \<Rightarrow> real \<Rightarrow> nat list" where
  "detect_outliers_iqr values multiplier =
     (if length values < 4 then []
      else
        (let q1 = np_percentile values 25;
             q3 = np_percentile values 75;
             iqr = q3 - q1;
             lower_bound = q1 - multiplier * iqr;
             upper_bound = q3 + multiplier * iqr
         in filter (\<lambda>i. values ! i < lower_bound \<or> values ! i > upper_bound) [0..<length values]))"

text \<open>
  \<open>analyze_node_performance\<close>, the part that fills \<open>slow_nodes\<close>. A test is the list of
  its \<open>busbw_GB/s\<close> readings (a test without results has none); \<open>hosts\<close> and
  \<open>gpus_per_node\<close> may be absent from the input.
\<close>

record test_results =
  tests_of :: "real list list option"
  hosts_of :: "node list option"
  gpus_per_node_of :: "int option"

record slow_node =
  hostname :: node
  index :: nat
  reason :: string
  confidence :: string

definition all_bandwidths_of :: "real list list \<Rightarrow> real list" where
  "all_bandwidths_of ts = map (\<lambda>rs. fold max (tl rs) (hd rs)) (filter (\<lambda>rs. rs \<noteq> []) ts)"

definition node_has_outlier :: "nat list \<Rightarrow> nat list \<Rightarrow> int \<Rightarrow> nat \<Rightarrow> bool" where
  "node_has_outlier zscore_outliers iqr_outliers gpus_per_node host_idx =
     (let node_gpu_start = int host_idx * gpus_per_node;
          node_gpu_end = node_gpu_start + gpus_per_node
      in \<exists>outlier_idx \<in> set zscore_outliers \<inter> set iqr_outliers.
           node_gpu_start \<le> int outlier_idx \<and> int outlier_idx < node_gpu_end)"

definition slow_node_entry :: "nat list \<Rightarrow> nat list \<Rightarrow> node list \<Rightarrow> nat \<Rightarrow> slow_node" where
  "slow_node_entry zscore_outliers iqr_outliers hs host_idx =
     \<lparr>hostname = hs ! host_idx, index = host_idx,
      reason = ''Performance outlier detected'',
      confidence = (if host_idx \<in> set zscore_outliers \<and> host_idx \<in> set iqr_outliers
                    then ''high'' else ''medium'')\<rparr>"

definition analyze_node_performance :: "test_results \<Rightarrow> slow_node list" where
  "analyze_node_performance test_results =
     (case tests_of test_results of
        None \<Rightarrow> []
      | Some ts \<Rightarrow>
          (let all_bandwidths = all_bandwidths_of ts
           in if all_bandwidths = [] then []
              else
                (let zscore_outliers = detect_outliers_zscore all_bandwidths 2.0;
                     iqr_outliers = detect_outliers_iqr all_bandwidths 1.5
                 in case hosts_of test_results of
                      None \<Rightarrow> []
                    | Some hs \<Rightarrow>
                        (let gpus_per_node = (case gpus_per_node_of test_results of None \<Rightarrow> 8 | Some g \<Rightarrow> g)
                         in map (slow_node_entry zscore_outliers iqr_outliers hs)
                              (filter (node_has_outlier zscore_outliers iqr_outliers gpus_per_node)
                                 [0..<length hs])))))"

section \<open>Scripted benchmarks\<close>

text \<open>
  The benchmark of the bisection test scenario: a sublist that contains a member of \<open>S\<close>
  reads 10 GB/s, any other sublist reads 100 GB/s.
\<close>

definition scripted :: "node set \<Rightarrow> benchmark" where
  "scripted S i ms l = (if set ms \<inter> S = {} then Completed 0 (Some 100) else Completed 0 (Some 10))"

text \<open>A benchmark that always completes with exit status 0 and the same bandwidth reading.\<close>

definition steady :: "real option \<Rightarrow> benchmark" where
  "steady bw i ms l = Completed 0 bw"



text \<open>
  The pairwise results of the three-node scenario: the pairs A-B and A-C read 100 GB/s,
  the pair B-C reads 10 GB/s, and every pair succeeds.
\<close>

definition three_node_results :: "(string \<times> pair_result) list" where
  "three_node_results =
     [(pair_key ''A'' ''B'', \<lparr>pair_nodes = [''A'', ''B''], pair_bandwidth_gb_s = Some 100, pair_success = True\<rparr>),
      (pair_key ''A'' ''C'', \<lparr>pair_nodes = [''A'', ''C''], pair_bandwidth_gb_s = Some 100, pair_success = True\<rparr>),
      (pair_key ''B'' ''C'', \<lparr>pair_nodes = [''B'', ''C''], pair_bandwidth_gb_s = Some 10, pair_success = True\<rparr>)]"

text \<open>Three pairs that all read 100 GB/s, the pair A-C with a failed process.\<close>

definition failing_pair_results :: "(string \<times> pair_result) list" where
  "failing_pair_results =
     [(pair_key ''A'' ''B'', \<lparr>pair_nodes = [''A'', ''B''], pair_bandwidth_gb_s = Some 100, pair_success = True\<rparr>),
      (pair_key ''A'' ''C'', \<lparr>pair_nodes = [''A'', ''C''], pair_bandwidth_gb_s = Some 100, pair_success = False\<rparr>),
      (pair_key ''B'' ''C'', \<lparr>pair_nodes = [''B'', ''C''], pair_bandwidth_gb_s = Some 100, pair_success = True\<rparr>)]"

text \<open>
  Inputs of \<open>analyze_node_performance\<close>: ten tests on five hosts with two GPUs each, the
  last one reading 0 GB/s; and four tests on four hosts with one GPU each.
\<close>

definition ten_tests :: test_results where
  "ten_tests =
     \<lparr>tests_of = Some [[10], [10], [10], [10], [10], [10], [10], [10], [10], [0]],
      hosts_of = Some [''n0'', ''n1'', ''n2'', ''n3'', ''n4''],
      gpus_per_node_of = Some 2\<rparr>"

definition four_tests :: test_results where
  "four_tests =
     \<lparr>tests_of = Some [[1], [7], [7], [9]],
      hosts_of = Some [''n0'', ''n1'', ''n2'', ''n3''],
      gpus_per_node_of = Some 1\<rparr>"

section \<open>Properties of the bisection\<close>


lemma run_nccl_test_threshold [simp]:
  "threshold_gb_s (snd (run_nccl_test bench ns nm st)) = threshold_gb_s st"
  by (simp add: run_nccl_test_def Let_def)

lemma run_nccl_test_result:
  "fst (run_nccl_test bench ns nm st) =
     nccl_result (threshold_gb_s st) ns nm (bench (length (test_history st)) ns nm)"
  by (simp add: run_nccl_test_def Let_def)

lemma bisect_test_empty: "bisect_test bench [] depth st = ({}, st)"
  by (simp add: bisect_test.simps)

lemma bisect_test_single:
  "bisect_test bench [n] depth st =
     (if is_good (fst (run_nccl_test bench [n] (Single_node_depth depth) st)) then {} else {n},
      snd (run_nccl_test bench [n] (Single_node_depth depth) st))"
  by (simp add: bisect_test.simps split: prod.splits)

lemma bisect_test_group_good:
  assumes "2 \<le> length ns"
    and "is_good (fst (run_nccl_test bench ns (Group_depth depth) st))"
  shows "bisect_test bench ns depth st =
     ({}, (snd (run_nccl_test bench ns (Group_depth depth) st))
            \<lparr>good_nodes := good_nodes (snd (run_nccl_test bench ns (Group_depth depth) st)) \<union> set ns\<rparr>)"
proof -
  from assms(1) have "ns \<noteq> []" "length ns \<noteq> Suc 0" by auto
  with assms(2) show ?thesis
    by (subst bisect_test.simps) (auto split: prod.splits)
qed

lemma bisect_test_group_bad:
  assumes "2 \<le> length ns"
    and "\<not> is_good (fst (run_nccl_test bench ns (Group_depth depth) st))"
  shows "bisect_test bench ns depth st =
     (let st1 = snd (run_nccl_test bench ns (Group_depth depth) st);
          l = bisect_test bench (take (length ns div 2) ns) (depth + 1) st1;
          r = bisect_test bench (drop (length ns div 2) ns) (depth + 1) (snd l)
      in (fst l \<union> fst r, snd r))"
proof -
  from assms(1) have "ns \<noteq> []" "length ns \<noteq> Suc 0" by auto
  with assms(2) show ?thesis
    by (subst bisect_test.simps) (auto simp: Let_def split: prod.splits)
qed

lemma bisect_test_threshold [simp]:
  "threshold_gb_s (snd (bisect_test bench ns depth st)) = threshold_gb_s st"
proof (induction bench ns depth st rule: bisect_test.induct)
  case (1 bench ns depth st)
  show ?case
  proof (cases "length ns < 2")
    case True
    then consider "ns = []" | n where "ns = [n]"
      by (cases ns) (auto simp: length_Suc_conv)
    then show ?thesis
      by cases (simp_all add: bisect_test_empty bisect_test_single)
  next
    case False
    then have len: "length ns \<noteq> 0" "length ns \<noteq> 1" "2 \<le> length ns" by auto
    let ?t = "run_nccl_test bench ns (Group_depth depth) st"
    show ?thesis
    proof (cases "is_good (fst ?t)")
      case True
      with len show ?thesis by (simp add: bisect_test_group_good)
    next
      case bad: False
      obtain result st1 where t: "?t = (result, st1)" by (cases ?t)
      obtain lb st2 where l: "bisect_test bench (take (length ns div 2) ns) (depth + 1) st1 = (lb, st2)"
        by (cases "bisect_test bench (take (length ns div 2) ns) (depth + 1) st1")
      from bad t have nb: "\<not> is_good result" by simp
      have 1: "threshold_gb_s st2 = threshold_gb_s st1"
        using "1.IH"(1)[OF len(1,2) t[symmetric] nb refl refl refl] l by simp
      have 2: "threshold_gb_s (snd (bisect_test bench (drop (length ns div 2) ns) (depth + 1) st2)) = threshold_gb_s st2"
        using "1.IH"(2)[OF len(1,2) t[symmetric] nb refl refl refl l[symmetric]] by simp
      have 3: "threshold_gb_s st1 = threshold_gb_s st"
        using t run_nccl_test_threshold[of bench ns "Group_depth depth" st] by simp
      show ?thesis
        using bad len(3) t l 1 2 3 by (simp add: bisect_test_group_bad Let_def)
    qed
  qed
qed


lemma short_list_cases:
  assumes "length (ns :: 'a list) < 2"
  obtains "ns = []" | n where "ns = [n]"
  using assms by (cases ns) (auto simp: length_Suc_conv)

lemma bisect_test_scripted:
  assumes script: "\<And>i ms l. is_good (nccl_result thr ms l (bench i ms l)) = (set ms \<inter> S = {})"
  shows "threshold_gb_s st = thr \<Longrightarrow> fst (bisect_test bench ns depth st) = S \<inter> set ns"
proof (induction "length ns" arbitrary: ns depth st rule: less_induct)
  case less
  show ?case
  proof (cases "length ns < 2")
    case True
    then show ?thesis
    proof (cases rule: short_list_cases)
      case 1
      then show ?thesis by (simp add: bisect_test_empty)
    next
      case (2 n)
      with less.prems show ?thesis
        by (auto simp: bisect_test_single run_nccl_test_result script)
    qed
  next
    case False
    then have len: "2 \<le> length ns" by simp
    let ?t = "run_nccl_test bench ns (Group_depth depth) st"
    let ?mid = "length ns div 2"
    have verdict: "is_good (fst ?t) = (set ns \<inter> S = {})"
      using less.prems by (simp add: run_nccl_test_result script)
    show ?thesis
    proof (cases "is_good (fst ?t)")
      case True
      with len verdict show ?thesis
        by (auto simp: bisect_test_group_good)
    next
      case bad: False
      let ?l = "bisect_test bench (take ?mid ns) (depth + 1) (snd ?t)"
      let ?r = "bisect_test bench (drop ?mid ns) (depth + 1) (snd ?l)"
      from len have shorter: "length (take ?mid ns) < length ns" "length (drop ?mid ns) < length ns"
        by auto
      have l: "fst ?l = S \<inter> set (take ?mid ns)"
        using less.hyps[OF shorter(1)] less.prems by simp
      have r: "fst ?r = S \<inter> set (drop ?mid ns)"
        using less.hyps[OF shorter(2)] less.prems by simp
      have "set (take ?mid ns) \<union> set (drop ?mid ns) = set ns"
        by (metis append_take_drop_id set_append)
      with l r have "fst ?l \<union> fst ?r = S \<inter> set ns" by auto
      with bad len show ?thesis
        by (simp add: bisect_test_group_bad Let_def)
    qed
  qed
qed

text \<open>
  C1. Let the benchmark judge a tested sublist bad exactly when it contains a member of a
  fixed subset \<open>S\<close> of the roster. Then \<open>_bisect_test\<close>, which is a total function,
  returns exactly \<open>S\<close>; and when the roster has at least two nodes and \<open>S\<close> is not empty,
  the roster is cut at \<open>len // 2\<close> into two contiguous halves whose results, the right
  half run in the state the left half left, are united.
\<close>

theorem bisect_test_condemns_exactly:
  assumes "\<forall>i ms l. is_good (nccl_result (threshold_gb_s st) ms l (bench i ms l)) = (set ms \<inter> S = {})"
    and "S \<subseteq> set roster"
  shows "fst (bisect_test bench roster depth st) = S \<and>
    (2 \<le> length roster \<and> S \<noteq> {} \<longrightarrow>
       take (length roster div 2) roster @ drop (length roster div 2) roster = roster \<and>
       fst (bisect_test bench roster depth st) =
         fst (bisect_test bench (take (length roster div 2) roster) (depth + 1)
               (snd (run_nccl_test bench roster (Group_depth depth) st)))
         \<union> fst (bisect_test bench (drop (length roster div 2) roster) (depth + 1)
               (snd (bisect_test bench (take (length roster div 2) roster) (depth + 1)
                 (snd (run_nccl_test bench roster (Group_depth depth) st))))))"
proof -
  from assms(1) have script:
    "\<And>i ms l. is_good (nccl_result (threshold_gb_s st) ms l (bench i ms l)) = (set ms \<inter> S = {})"
    by blast
  have "fst (bisect_test bench roster depth st) = S \<inter> set roster"
    by (rule bisect_test_scripted[OF script refl])
  with assms(2) have main: "fst (bisect_test bench roster depth st) = S" by auto
  have split: "fst (bisect_test bench roster depth st) =
         fst (bisect_test bench (take (length roster div 2) roster) (depth + 1)
               (snd (run_nccl_test bench roster (Group_depth depth) st)))
         \<union> fst (bisect_test bench (drop (length roster div 2) roster) (depth + 1)
               (snd (bisect_test bench (take (length roster div 2) roster) (depth + 1)
                 (snd (run_nccl_test bench roster (Group_depth depth) st)))))"
    if "2 \<le> length roster" "S \<noteq> {}"
  proof -
    from that(2) assms(2) have "set roster \<inter> S \<noteq> {}" by auto
    then have "\<not> is_good (fst (run_nccl_test bench roster (Group_depth depth) st))"
      by (simp add: run_nccl_test_result script)
    with that(1) show ?thesis
      by (simp add: bisect_test_group_bad Let_def)
  qed
  from main split show ?thesis by simp
qed

theorem bisect_test_condemns_exactly_witness:
  "{''n1'', ''n2''} \<subseteq> set [''n0'', ''n1'', ''n2'', ''n3''] \<and>
   fst (bisect_test (scripted {''n1'', ''n2''}) [''n0'', ''n1'', ''n2'', ''n3''] 0
          (new_tester [''n0'', ''n1'', ''n2'', ''n3''] (Some 50))) = {''n1'', ''n2''} \<and>
   fst (bisect_test (scripted {''n1'', ''n2''}) [''n0'', ''n1'', ''n2'', ''n3''] 0
          (new_tester [''n0'', ''n1'', ''n2'', ''n3''] (Some 50))) =
     fst (bisect_test (scripted {''n1'', ''n2''}) [''n0'', ''n1''] 1
           (snd (run_nccl_test (scripted {''n1'', ''n2''}) [''n0'', ''n1'', ''n2'', ''n3''] (Group_depth 0)
                  (new_tester [''n0'', ''n1'', ''n2'', ''n3''] (Some 50)))))
     \<union> fst (bisect_test (scripted {''n1'', ''n2''}) [''n2'', ''n3''] 1
           (snd (bisect_test (scripted {''n1'', ''n2''}) [''n0'', ''n1''] 1
             (snd (run_nccl_test (scripted {''n1'', ''n2''}) [''n0'', ''n1'', ''n2'', ''n3''] (Group_depth 0)
                  (new_tester [''n0'', ''n1'', ''n2'', ''n3''] (Some 50)))))))"
proof -
  have script: "\<forall>i ms l. is_good (nccl_result (threshold_gb_s (new_tester [''n0'', ''n1'', ''n2'', ''n3''] (Some 50))) ms l
                   (scripted {''n1'', ''n2''} i ms l)) = (set ms \<inter> {''n1'', ''n2''} = {})"
    by (simp add: new_tester_def scripted_def nccl_result_def verdict_def)
  have sub: "{''n1'', ''n2''} \<subseteq> set [''n0'', ''n1'', ''n2'', ''n3'']" by simp
  have len: "2 \<le> length [''n0'', ''n1'', ''n2'', ''n3''] \<and> {''n1'', ''n2''} \<noteq> ({} :: node set)"
    by simp
  note th = bisect_test_condemns_exactly[OF script sub, of 0]
  from th have main: "fst (bisect_test (scripted {''n1'', ''n2''}) [''n0'', ''n1'', ''n2'', ''n3''] 0
          (new_tester [''n0'', ''n1'', ''n2'', ''n3''] (Some 50))) = {''n1'', ''n2''}"
    by (rule conjunct1)
  from th len have split: "fst (bisect_test (scripted {''n1'', ''n2''}) [''n0'', ''n1'', ''n2'', ''n3''] 0
          (new_tester [''n0'', ''n1'', ''n2'', ''n3''] (Some 50))) =
     fst (bisect_test (scripted {''n1'', ''n2''}) (take (length [''n0'', ''n1'', ''n2'', ''n3''] div 2) [''n0'', ''n1'', ''n2'', ''n3'']) (0 + 1)
           (snd (run_nccl_test (scripted {''n1'', ''n2''}) [''n0'', ''n1'', ''n2'', ''n3''] (Group_depth 0)
                  (new_tester [''n0'', ''n1'', ''n2'', ''n3''] (Some 50)))))
     \<union> fst (bisect_test (scripted {''n1'', ''n2''}) (drop (length [''n0'', ''n1'', ''n2'', ''n3''] div 2) [''n0'', ''n1'', ''n2'', ''n3'']) (0 + 1)
           (snd (bisect_test (scripted {''n1'', ''n2''}) (take (length [''n0'', ''n1'', ''n2'', ''n3''] div 2) [''n0'', ''n1'', ''n2'', ''n3'']) (0 + 1)
             (snd (run_nccl_test (scripted {''n1'', ''n2''}) [''n0'', ''n1'', ''n2'', ''n3''] (Group_depth 0)
                  (new_tester [''n0'', ''n1'', ''n2'', ''n3''] (Some 50)))))))"
    by blast
  have halves: "take (length [''n0'', ''n1'', ''n2'', ''n3''] div 2) [''n0'', ''n1'', ''n2'', ''n3''] = [''n0'', ''n1'']"
    "drop (length [''n0'', ''n1'', ''n2'', ''n3''] div 2) [''n0'', ''n1'', ''n2'', ''n3''] = [''n2'', ''n3'']"
    "0 + 1 = (1::nat)"
    by simp_all
  from split have split': "fst (bisect_test (scripted {''n1'', ''n2''}) [''n0'', ''n1'', ''n2'', ''n3''] 0
          (new_tester [''n0'', ''n1'', ''n2'', ''n3''] (Some 50))) =
     fst (bisect_test (scripted {''n1'', ''n2''}) [''n0'', ''n1''] 1
           (snd (run_nccl_test (scripted {''n1'', ''n2''}) [''n0'', ''n1'', ''n2'', ''n3''] (Group_depth 0)
                  (new_tester [''n0'', ''n1'', ''n2'', ''n3''] (Some 50)))))
     \<union> fst (bisect_test (scripted {''n1'', ''n2''}) [''n2'', ''n3''] 1
           (snd (bisect_test (scripted {''n1'', ''n2''}) [''n0'', ''n1''] 1
             (snd (run_nccl_test (scripted {''n1'', ''n2''}) [''n0'', ''n1'', ''n2'', ''n3''] (Group_depth 0)
                  (new_tester [''n0'', ''n1'', ''n2'', ''n3''] (Some 50)))))))"
    unfolding halves .
  from sub main split' show ?thesis by (intro conjI)
qed

lemma run_nccl_test_history:
  "test_history (snd (run_nccl_test bench ns nm st)) =
     test_history st @ [fst (run_nccl_test bench ns nm st)]"
  by (simp add: run_nccl_test_def Let_def)

lemma run_nccl_test_hosts [simp]:
  "hosts (snd (run_nccl_test bench ns nm st)) = hosts st"
  by (simp add: run_nccl_test_def Let_def)

lemma run_nccl_test_good_nodes [simp]:
  "good_nodes (snd (run_nccl_test bench ns nm st)) = good_nodes st"
  by (simp add: run_nccl_test_def Let_def)

text \<open>Every test is appended to the history, and it is judged with the tester's threshold.\<close>

lemma bisect_test_history:
  "\<exists>ys. test_history (snd (bisect_test bench ns depth st)) = test_history st @ ys \<and>
        (\<forall>r \<in> set ys. \<exists>i ms l. r = nccl_result (threshold_gb_s st) ms l (bench i ms l))"
proof (induction "length ns" arbitrary: ns depth st rule: less_induct)
  case less
  let ?P = "\<lambda>thr r. \<exists>i ms l. r = nccl_result thr ms l (bench i ms l)"
  have one: "?P (threshold_gb_s s) (fst (run_nccl_test bench ms l s))" for s ms l
    unfolding run_nccl_test_result by blast
  show ?case
  proof (cases "length ns < 2")
    case True
    then show ?thesis
    proof (cases rule: short_list_cases)
      case 1
      then show ?thesis by (simp add: bisect_test_empty)
    next
      case (2 n)
      then show ?thesis
        using one[where s=st and ms="[n]" and l="Single_node_depth depth"]
        by (simp add: bisect_test_single run_nccl_test_history)
    qed
  next
    case False
    then have len: "2 \<le> length ns" by simp
    let ?t = "run_nccl_test bench ns (Group_depth depth) st"
    let ?mid = "length ns div 2"
    show ?thesis
    proof (cases "is_good (fst ?t)")
      case True
      with len show ?thesis
        using one[where s=st and ms=ns and l="Group_depth depth"]
        by (simp add: bisect_test_group_good run_nccl_test_history)
    next
      case bad: False
      let ?l = "bisect_test bench (take ?mid ns) (depth + 1) (snd ?t)"
      let ?r = "bisect_test bench (drop ?mid ns) (depth + 1) (snd ?l)"
      from len have shorter: "length (take ?mid ns) < length ns" "length (drop ?mid ns) < length ns"
        by auto
      obtain ys where ys: "test_history (snd ?l) = test_history (snd ?t) @ ys"
        "\<forall>r \<in> set ys. ?P (threshold_gb_s st) r"
        using less.hyps[OF shorter(1), of "depth + 1" "snd ?t"] by auto
      obtain zs where zs: "test_history (snd ?r) = test_history (snd ?l) @ zs"
        "\<forall>r \<in> set zs. ?P (threshold_gb_s st) r"
        using less.hyps[OF shorter(2), of "depth + 1" "snd ?l"] by auto
      have "test_history (snd ?r) = test_history st @ (fst ?t # ys @ zs)"
        using ys(1) zs(1) by (simp add: run_nccl_test_history)
      moreover have "\<forall>r \<in> set (fst ?t # ys @ zs). ?P (threshold_gb_s st) r"
        using ys(2) zs(2) one[where s=st and ms=ns and l="Group_depth depth"] by auto
      moreover have "snd (bisect_test bench ns depth st) = snd ?r"
        using bad len by (simp add: bisect_test_group_bad Let_def)
      ultimately show ?thesis by metis
    qed
  qed
qed

lemma bisect_test_hosts [simp]: "hosts (snd (bisect_test bench ns depth st)) = hosts st"
proof (induction "length ns" arbitrary: ns depth st rule: less_induct)
  case less
  show ?case
  proof (cases "length ns < 2")
    case True
    then show ?thesis
      by (cases rule: short_list_cases) (simp_all add: bisect_test_empty bisect_test_single)
  next
    case False
    then have len: "2 \<le> length ns" by simp
    then have shorter: "length (take (length ns div 2) ns) < length ns"
      "length (drop (length ns div 2) ns) < length ns"
      by auto
    show ?thesis
    proof (cases "is_good (fst (run_nccl_test bench ns (Group_depth depth) st))")
      case True
      with len show ?thesis by (simp add: bisect_test_group_good)
    next
      case False
      with len show ?thesis
        by (simp add: bisect_test_group_bad Let_def less.hyps[OF shorter(1)] less.hyps[OF shorter(2)])
    qed
  qed
qed

lemma bisect_test_all_good:
  assumes "ns \<noteq> []"
    and "list_all is_good (test_history (snd (bisect_test bench ns depth st)))"
  shows "fst (bisect_test bench ns depth st) = {} \<and>
         length (test_history (snd (bisect_test bench ns depth st))) = length (test_history st) + 1"
proof (cases "length ns < 2")
  case True
  then show ?thesis
  proof (cases rule: short_list_cases)
    case 1
    with assms(1) show ?thesis by simp
  next
    case (2 n)
    with assms(2) show ?thesis
      by (simp add: bisect_test_single run_nccl_test_history)
  qed
next
  case False
  then have len: "2 \<le> length ns" by simp
  let ?t = "run_nccl_test bench ns (Group_depth depth) st"
  have good: "is_good (fst ?t)"
  proof (rule ccontr)
    assume bad: "\<not> is_good (fst ?t)"
    let ?l = "bisect_test bench (take (length ns div 2) ns) (depth + 1) (snd ?t)"
    let ?r = "bisect_test bench (drop (length ns div 2) ns) (depth + 1) (snd ?l)"
    obtain ys where ys: "test_history (snd ?l) = test_history (snd ?t) @ ys"
      using bisect_test_history by blast
    obtain zs where zs: "test_history (snd ?r) = test_history (snd ?l) @ zs"
      using bisect_test_history by blast
    have "snd (bisect_test bench ns depth st) = snd ?r"
      using bad len by (simp add: bisect_test_group_bad Let_def)
    with assms(2) ys zs have "is_good (fst ?t)"
      by (simp add: run_nccl_test_history)
    with bad show False by simp
  qed
  with len show ?thesis
    by (simp add: bisect_test_group_good run_nccl_test_history)
qed

lemma establish_threshold_hosts [simp]: "hosts (establish_threshold bench st) = hosts st"
  by (simp add: establish_threshold_def split: prod.splits)
    (metis run_nccl_test_hosts snd_conv)

lemma establish_threshold_history:
  "test_history (establish_threshold bench st) =
     (if truthy (threshold_gb_s st) then test_history st
      else test_history st @ [fst (run_nccl_test bench (take 2 (hosts st)) Baseline st)])"
  by (simp add: establish_threshold_def run_nccl_test_def Let_def)

lemma run_bisection_detection_state:
  "snd (run_bisection_detection bench st) =
     snd (bisect_test bench (hosts st) 0 (establish_threshold bench st))"
  by (simp add: run_bisection_detection_def Let_def split: prod.splits)

lemma run_bisection_detection_result:
  "fst (run_bisection_detection bench st) =
     (let st1 = establish_threshold bench st;
          st2 = snd (bisect_test bench (hosts st) 0 st1)
      in if list_ex is_good_numpy (test_history st2) then Inl TypeError
         else Inr \<lparr>report_total_nodes = length (hosts st),
                   report_total_tests = length (test_history st2),
                   report_threshold_gb_s = threshold_gb_s st1,
                   report_bad_nodes = fst (bisect_test bench (hosts st) 0 st1),
                   report_good_nodes = good_nodes st2,
                   report_test_history = test_history st2\<rparr>)"
  by (simp add: run_bisection_detection_def Let_def split: prod.splits)
    (metis bisect_test_hosts bisect_test_threshold establish_threshold_hosts snd_conv)

text \<open>
  C2 (as amended). For a roster that is not empty and a run of \<open>run_bisection_detection\<close>
  in which every recorded benchmark invocation is judged good, the number of invocations
  is 1 when a non-zero threshold was supplied and 2 when none was (the baseline on the
  first two nodes is an invocation of its own), and a report that the run returns has an
  empty set of bad nodes and that number of tests.
\<close>

theorem all_good_roster_test_count:
  assumes "hs \<noteq> []"
    and "\<forall>r \<in> set (test_history (snd (run_bisection_detection bench (new_tester hs thr)))). is_good r"
  shows "length (test_history (snd (run_bisection_detection bench (new_tester hs thr)))) =
           (if truthy thr then 1 else 2) \<and>
         (\<forall>rep. fst (run_bisection_detection bench (new_tester hs thr)) = Inr rep \<longrightarrow>
            report_bad_nodes rep = {} \<and>
            report_total_tests rep = (if truthy thr then 1 else 2) \<and>
            report_test_history rep =
              test_history (snd (run_bisection_detection bench (new_tester hs thr))))"
proof -
  let ?st = "new_tester hs thr"
  let ?st1 = "establish_threshold bench ?st"
  have hs: "hosts ?st = hs" and thr: "threshold_gb_s ?st = thr" and h0: "test_history ?st = []"
    by (simp_all add: new_tester_def)
  from assms(2) have "list_all is_good (test_history (snd (bisect_test bench hs 0 ?st1)))"
    by (simp add: run_bisection_detection_state hs list_all_iff)
  from bisect_test_all_good[OF assms(1) this]
  have bad: "fst (bisect_test bench hs 0 ?st1) = {}"
    and "length (test_history (snd (bisect_test bench hs 0 ?st1))) = length (test_history ?st1) + 1"
    by simp_all
  moreover have "length (test_history ?st1) = (if truthy thr then 0 else 1)"
    by (simp add: establish_threshold_history thr h0)
  ultimately have len: "length (test_history (snd (bisect_test bench hs 0 ?st1))) =
      (if truthy thr then 1 else 2)"
    by simp
  show ?thesis
    using len bad
    by (auto simp: run_bisection_detection_state run_bisection_detection_result hs Let_def
        split: if_splits)
qed

lemmas run_eval = run_bisection_detection_state run_bisection_detection_result
  establish_threshold_def run_nccl_test_def
  nccl_result_def verdict_def truthy_def new_tester_def steady_def Let_def

theorem all_good_roster_test_count_witness:
  "[''n0'', ''n1'', ''n2'', ''n3''] \<noteq> [] \<and>
   list_all is_good (test_history (snd
      (run_bisection_detection (steady None) (new_tester [''n0'', ''n1'', ''n2'', ''n3''] (Some 50))))) \<and>
   length (test_history (snd
      (run_bisection_detection (steady None) (new_tester [''n0'', ''n1'', ''n2'', ''n3''] (Some 50))))) = 1 \<and>
   (\<exists>rep. fst (run_bisection_detection (steady None) (new_tester [''n0'', ''n1'', ''n2'', ''n3''] (Some 50)))
            = Inr rep \<and>
          report_bad_nodes rep = {} \<and> report_total_tests rep = 1)"
proof -
  let ?run = "run_bisection_detection (steady None) (new_tester [''n0'', ''n1'', ''n2'', ''n3''] (Some 50))"
  have ne: "[''n0'', ''n1'', ''n2'', ''n3''] \<noteq> ([] :: node list)" by simp
  have hist: "test_history (snd ?run) =
      [nccl_result (Some 50) [''n0'', ''n1'', ''n2'', ''n3''] (Group_depth 0) (Completed 0 None)]"
    by (simp add: run_eval bisect_test_group_good)
  have good: "\<forall>r \<in> set (test_history (snd ?run)). is_good r"
    unfolding hist by (simp add: nccl_result_def verdict_def)
  obtain rep where rep: "fst ?run = Inr rep"
    by (simp add: run_bisection_detection_result hist Let_def)
      (simp add: run_eval bisect_test_group_good)
  from all_good_roster_test_count[OF ne good] rep
  have "length (test_history (snd ?run)) = 1"
    and "report_bad_nodes rep = {} \<and> report_total_tests rep = 1"
    by (simp_all add: truthy_def)
  with ne good rep show ?thesis
    by (simp add: list_all_iff)
qed

text \<open>
  C2, as stated, fails when no threshold is supplied: on a roster of four nodes whose every
  invocation is judged good, the history holds the baseline and the top-level test, and
  the report counts two tests.
\<close>

theorem all_good_roster_two_tests:
  "list_all is_good (test_history (snd
      (run_bisection_detection (steady None) (new_tester [''n0'', ''n1'', ''n2'', ''n3''] None)))) \<and>
   length (test_history (snd
      (run_bisection_detection (steady None) (new_tester [''n0'', ''n1'', ''n2'', ''n3''] None)))) \<noteq> 1 \<and>
   (\<exists>rep. fst (run_bisection_detection (steady None) (new_tester [''n0'', ''n1'', ''n2'', ''n3''] None))
            = Inr rep \<and>
          report_bad_nodes rep = {} \<and> report_total_tests rep = 2)"
proof -
  let ?run = "run_bisection_detection (steady None) (new_tester [''n0'', ''n1'', ''n2'', ''n3''] None)"
  have hist: "test_history (snd ?run) =
      [nccl_result None [''n0'', ''n1''] Baseline (Completed 0 None),
       nccl_result None [''n0'', ''n1'', ''n2'', ''n3''] (Group_depth 0) (Completed 0 None)]"
    by (simp add: run_eval bisect_test_group_good)
  have rep: "\<exists>rep. fst ?run = Inr rep \<and> report_bad_nodes rep = {} \<and> report_total_tests rep = 2"
    by (simp add: run_eval bisect_test_group_good)
  show ?thesis
    using rep unfolding hist by (simp add: nccl_result_def verdict_def)
qed

section \<open>Threshold calibration\<close>

lemma double_exponent_eq:
  assumes "2 powi k \<le> \<bar>x\<bar>" and "\<bar>x\<bar> < 2 powi (k + 1)" and "- 1022 \<le> k"
  shows "double_exponent x = k - 52"
proof -
  have pos: "0 < \<bar>x\<bar>"
    using assms(1) by (smt (verit) zero_less_power_int)
  have "2 powr real_of_int k = 2 powi k" "2 powr (real_of_int k + 1) = 2 powi (k + 1)"
    using powr_real_of_int'[of 2 k] powr_real_of_int'[of 2 "k + 1"] by simp_all
  then have "\<lfloor>log 2 \<bar>x\<bar>\<rfloor> = k"
    using assms(1,2) pos by (simp add: floor_log_eq_powr_iff)
  with assms(3) show ?thesis
    by (simp add: double_exponent_def)
qed

lemma round_double_eq:
  assumes "2 powi k \<le> \<bar>x\<bar>" and "\<bar>x\<bar> < 2 powi (k + 1)" and "- 1022 \<le> k"
  shows "round_double x = real_of_int (round_half_even (x / 2 powi (k - 52))) * 2 powi (k - 52)"
proof -
  from assms(1) have "x \<noteq> 0"
    by (smt (verit) zero_less_power_int)
  then show ?thesis
    by (simp add: round_double_def double_exponent_eq[OF assms])
qed

text \<open>
  The literal \<open>0.8\<close> (the double nearest to 4/5), and the thresholds of the baselines
  250 GB/s and 101 GB/s: exactly 200, and 80.80000000000001.
\<close>

lemma double_0_8: "round_double (4 / 5) = 3602879701896397 / 4503599627370496"
  by (subst round_double_eq[of "-1"]) (simp_all add: round_half_even_def power_int_minus Let_def)

lemma float_mul_250: "float_mul 250 (round_double (4 / 5)) = 200"
  unfolding float_mul_def double_0_8
  by (subst round_double_eq[of 7]) (simp_all add: round_half_even_def power_int_minus Let_def)

lemma float_mul_101: "float_mul 101 (round_double (4 / 5)) = 1421448632388813 / 17592186044416"
  unfolding float_mul_def double_0_8
  by (subst round_double_eq[of 6]) (simp_all add: round_half_even_def power_int_minus Let_def)

lemma nccl_result_fallback:
  "\<not> truthy thr \<Longrightarrow> is_good (nccl_result thr ms l oc) = success (nccl_result thr ms l oc)"
  by (cases oc) (auto simp: nccl_result_def verdict_def truthy_def split: option.splits)

lemma establish_threshold_threshold:
  "threshold_gb_s (establish_threshold bench st) =
     (if truthy (threshold_gb_s st) then threshold_gb_s st
      else if truthy (bandwidth_gb_s (fst (run_nccl_test bench (take 2 (hosts st)) Baseline st)))
      then map_option (\<lambda>bw. float_mul bw (round_double 0.8))
             (bandwidth_gb_s (fst (run_nccl_test bench (take 2 (hosts st)) Baseline st)))
      else threshold_gb_s st)"
  by (simp add: establish_threshold_def run_nccl_test_def Let_def)

text \<open>
  C6. With no threshold supplied and a baseline on the first two nodes that reads exactly
  0.0 GB/s, the reading is there and the threshold is left unset, for the whole run,
  instead of being set to 0.8 times the reading. A baseline of 250 GB/s sets the threshold
  to exactly 200 GB/s.
\<close>

theorem zero_baseline_leaves_threshold_unset:
  "bandwidth_gb_s (fst (run_nccl_test (steady (Some 0)) (take 2 [''n0'', ''n1'', ''n2'']) Baseline
      (new_tester [''n0'', ''n1'', ''n2''] None))) = Some 0 \<and>
   threshold_gb_s (establish_threshold (steady (Some 0)) (new_tester [''n0'', ''n1'', ''n2''] None)) = None \<and>
   threshold_gb_s (snd (run_bisection_detection (steady (Some 0)) (new_tester [''n0'', ''n1'', ''n2''] None)))
     = None \<and>
   threshold_gb_s (establish_threshold (steady (Some 250)) (new_tester [''n0'', ''n1'', ''n2''] None))
     = Some 200"
proof -
  have "threshold_gb_s (establish_threshold (steady (Some 250)) (new_tester [''n0'', ''n1'', ''n2''] None))
     = Some (float_mul 250 (round_double 0.8))"
    by (simp add: establish_threshold_threshold run_nccl_test_def nccl_result_def truthy_def
        new_tester_def steady_def Let_def)
  moreover have "threshold_gb_s (establish_threshold (steady (Some 0)) (new_tester [''n0'', ''n1'', ''n2''] None))
     = None"
    by (simp add: establish_threshold_threshold run_nccl_test_def nccl_result_def truthy_def
        new_tester_def steady_def Let_def)
  moreover have "bandwidth_gb_s (fst (run_nccl_test (steady (Some 0)) (take 2 [''n0'', ''n1'', ''n2'']) Baseline
      (new_tester [''n0'', ''n1'', ''n2''] None))) = Some 0"
    by (simp add: run_nccl_test_def nccl_result_def steady_def Let_def)
  ultimately show ?thesis
    by (simp add: run_bisection_detection_state float_mul_250)
qed

text \<open>
  C5. With the threshold 100 GB/s and a parsed bandwidth of exactly 0.0 GB/s, both are
  known and the bandwidth is below the threshold; the verdict is nevertheless good,
  because the process succeeded.
\<close>

theorem zero_bandwidth_judged_by_exit_status:
  "bandwidth_gb_s (fst (run_nccl_test (steady (Some 0)) [''n0'', ''n1''] (Group_depth 0)
      (new_tester [''n0'', ''n1''] (Some 100)))) = Some 0 \<and>
   threshold_gb_s (new_tester [''n0'', ''n1''] (Some 100)) = Some 100 \<and>
   \<not> (100 :: real) \<le> 0 \<and>
   is_good (fst (run_nccl_test (steady (Some 0)) [''n0'', ''n1''] (Group_depth 0)
      (new_tester [''n0'', ''n1''] (Some 100))))"
  by (simp add: run_eval)

text \<open>
  C7. The single-node case leaves \<open>good_nodes\<close> as it was: a node that is tested alone
  and judged good is not condemned, and it is not recorded as known-good either.
\<close>

theorem single_good_node_not_recorded:
  "good_nodes (snd (bisect_test bench [n] depth st)) = good_nodes st \<and>
   is_good (fst (run_nccl_test (steady (Some 100)) [''n0''] (Single_node_depth 0) (new_tester [''n0''] (Some 50)))) \<and>
   fst (bisect_test (steady (Some 100)) [''n0''] 0 (new_tester [''n0''] (Some 50))) = {} \<and>
   ''n0'' \<notin> good_nodes (snd (bisect_test (steady (Some 100)) [''n0''] 0 (new_tester [''n0''] (Some 50))))"
  by (simp add: bisect_test_single run_eval)

section \<open>Exit status\<close>








section \<open>Pairwise analysis\<close>

lemma three_node_stats:
  "collect_node_stats three_node_results =
     [(''A'', \<lparr>bandwidths = [100, 100], failures = 0, tests = 2\<rparr>),
      (''B'', \<lparr>bandwidths = [100, 10], failures = 0, tests = 2\<rparr>),
      (''C'', \<lparr>bandwidths = [100, 10], failures = 0, tests = 2\<rparr>)]"
  by (simp add: collect_node_stats_def three_node_results_def add_sample_def Let_def)

lemma failing_pair_stats:
  "collect_node_stats failing_pair_results =
     [(''A'', \<lparr>bandwidths = [100, 100], failures = 1, tests = 2\<rparr>),
      (''B'', \<lparr>bandwidths = [100, 100], failures = 0, tests = 2\<rparr>),
      (''C'', \<lparr>bandwidths = [100, 100], failures = 1, tests = 2\<rparr>)]"
  by (simp add: collect_node_stats_def failing_pair_results_def add_sample_def Let_def)

lemma three_node_std: "np_std [100, 55, 55] = sqrt 450"
  by (simp add: np_std_def np_mean_def)

lemma three_node_threshold: "70 - 2 * sqrt 450 < (55 :: real)"
proof -
  have "20 < sqrt 450"
    by (rule real_less_rsqrt) simp
  then show ?thesis by simp
qed

lemma three_node_analysis:
  "map (\<lambda>e. (fst e, average_bandwidth_gb_s (snd e), failure_rate (snd e)))
      (node_statistics (analyze_pairwise_results three_node_results)) =
      [(''A'', 100, 0), (''B'', 55, 0), (''C'', 55, 0)]"
  "threshold_bandwidth (analyze_pairwise_results three_node_results) = Some (70 - 2 * sqrt 450)"
  "problematic_nodes (analyze_pairwise_results three_node_results) = []"
  using three_node_threshold
  by (simp_all add: analyze_pairwise_results_def three_node_stats node_statistic_of_def Let_def
      np_mean_def three_node_std is_problematic_def)


lemma analyze_pairwise_results_rule:
  assumes "threshold_bandwidth (analyze_pairwise_results results) = Some thr"
  shows "thr = np_mean (map (\<lambda>e. average_bandwidth_gb_s (snd e)) (node_statistics (analyze_pairwise_results results)))
             - 2 * np_std (map (\<lambda>e. average_bandwidth_gb_s (snd e)) (node_statistics (analyze_pairwise_results results)))"
    and "problematic_nodes (analyze_pairwise_results results) =
           map (problematic_entry thr)
             (filter (\<lambda>e. average_bandwidth_gb_s (snd e) < thr \<or> failure_rate (snd e) > 0.2)
                (node_statistics (analyze_pairwise_results results)))"
  using assms
  by (auto simp: analyze_pairwise_results_def Let_def is_problematic_def split_def comp_def
      split: if_splits)

text \<open>
  C3 (as amended). Whenever the analysis derives a threshold, it is the mean of the
  per-node average bandwidths minus twice their standard deviation, and the problematic
  nodes are exactly the nodes of the statistics table whose average is below the threshold
  or whose failure rate exceeds 0.2, in table order, with the reason "Low bandwidth" when
  the average is below the threshold and "High failure rate" otherwise. In the three-node
  scenario the averages are A: 100, B: 55, C: 55, and no node is flagged.
\<close>

theorem pairwise_problematic_nodes:
  "(\<forall>thr. threshold_bandwidth (analyze_pairwise_results results) = Some thr \<longrightarrow>
      thr = np_mean (map (\<lambda>e. average_bandwidth_gb_s (snd e)) (node_statistics (analyze_pairwise_results results)))
            - 2 * np_std (map (\<lambda>e. average_bandwidth_gb_s (snd e)) (node_statistics (analyze_pairwise_results results))) \<and>
      problematic_nodes (analyze_pairwise_results results) =
        map (problematic_entry thr)
          (filter (\<lambda>e. average_bandwidth_gb_s (snd e) < thr \<or> failure_rate (snd e) > 0.2)
             (node_statistics (analyze_pairwise_results results)))) \<and>
   (\<forall>thr e. problematic_reason (problematic_entry thr e) =
      (if average_bandwidth_gb_s (snd e) < thr then ''Low bandwidth'' else ''High failure rate'')) \<and>
   map (\<lambda>e. (fst e, average_bandwidth_gb_s (snd e), failure_rate (snd e)))
      (node_statistics (analyze_pairwise_results three_node_results)) =
      [(''A'', 100, 0), (''B'', 55, 0), (''C'', 55, 0)] \<and>
   problematic_nodes (analyze_pairwise_results three_node_results) = []"
  using analyze_pairwise_results_rule[of results] three_node_analysis(1,3)
  by (simp add: problematic_entry_def)

lemma failing_pair_analysis:
  "map (\<lambda>e. (fst e, average_bandwidth_gb_s (snd e), failure_rate (snd e)))
      (node_statistics (analyze_pairwise_results failing_pair_results)) =
      [(''A'', 100, 1 / 2), (''B'', 100, 0), (''C'', 100, 1 / 2)]"
  "threshold_bandwidth (analyze_pairwise_results failing_pair_results) = Some 100"
  by (simp_all add: analyze_pairwise_results_def failing_pair_stats node_statistic_of_def Let_def
      np_mean_def np_std_def)

theorem pairwise_problematic_nodes_witness:
  "threshold_bandwidth (analyze_pairwise_results failing_pair_results) = Some 100 \<and>
   map (\<lambda>p. (problematic_name p, problematic_reason p))
     (problematic_nodes (analyze_pairwise_results failing_pair_results)) =
     [(''A'', ''High failure rate''), (''C'', ''High failure rate'')]"
proof -
  let ?stats = "node_statistics (analyze_pairwise_results failing_pair_results)"
  have stats: "map (\<lambda>e. (fst e, average_bandwidth_gb_s (snd e), failure_rate (snd e))) ?stats =
      [(''A'', 100, 1 / 2), (''B'', 100, 0), (''C'', 100, 1 / 2)]"
    by (rule failing_pair_analysis(1))
  have thr: "threshold_bandwidth (analyze_pairwise_results failing_pair_results) = Some 100"
    by (rule failing_pair_analysis(2))
  from pairwise_problematic_nodes[of failing_pair_results] thr
  have "problematic_nodes (analyze_pairwise_results failing_pair_results) =
        map (problematic_entry 100)
          (filter (\<lambda>e. average_bandwidth_gb_s (snd e) < 100 \<or> failure_rate (snd e) > 0.2) ?stats)"
    by blast
  then have "map (\<lambda>p. (problematic_name p, problematic_reason p))
     (problematic_nodes (analyze_pairwise_results failing_pair_results)) =
     map (\<lambda>t. (fst t, if fst (snd t) < 100 then ''Low bandwidth'' else ''High failure rate''))
       (filter (\<lambda>t. fst (snd t) < 100 \<or> snd (snd t) > 0.2)
          (map (\<lambda>e. (fst e, average_bandwidth_gb_s (snd e), failure_rate (snd e))) ?stats))"
    by (simp add: problematic_entry_def filter_map comp_def)
  with thr show ?thesis
    unfolding stats by simp
qed

text \<open>
  C3, as stated, fails: in the three-node scenario the node C is not flagged.
\<close>

theorem three_nodes_none_flagged:
  "\<not> ''C'' \<in> set (map problematic_name (problematic_nodes (analyze_pairwise_results three_node_results)))"
  by (simp add: three_node_analysis(3))

section \<open>Combining the two outlier methods\<close>

lemma analyze_node_performance_hosts:
  assumes "tests_of tr = Some ts" and "hosts_of tr = Some hs"
  shows "analyze_node_performance tr =
    (if all_bandwidths_of ts = [] then []
     else map (slow_node_entry (detect_outliers_zscore (all_bandwidths_of ts) 2)
                 (detect_outliers_iqr (all_bandwidths_of ts) 1.5) hs)
            (filter (node_has_outlier (detect_outliers_zscore (all_bandwidths_of ts) 2)
                       (detect_outliers_iqr (all_bandwidths_of ts) 1.5)
                       (case gpus_per_node_of tr of None \<Rightarrow> 8 | Some g \<Rightarrow> g))
               [0..<length hs]))"
  using assms by (simp add: analyze_node_performance_def Let_def)

text \<open>
  C10 (as amended). \<open>analyze_node_performance\<close> reports the host with index \<open>k\<close> exactly
  when some sample index in the range of its GPUs is flagged by the Z-score method and by
  the IQR method as well; an index flagged by one method only never makes a host reported.
  Every reported entry carries the name of the host at its index.
\<close>

theorem slow_nodes_flagged_by_both_methods:
  assumes "tests_of tr = Some ts" and "hosts_of tr = Some hs"
  shows "((\<exists>e \<in> set (analyze_node_performance tr). index e = k) \<longleftrightarrow>
          k < length hs \<and> all_bandwidths_of ts \<noteq> [] \<and>
          (\<exists>outlier_idx.
             outlier_idx \<in> set (detect_outliers_zscore (all_bandwidths_of ts) 2) \<and>
             outlier_idx \<in> set (detect_outliers_iqr (all_bandwidths_of ts) 1.5) \<and>
             int k * (case gpus_per_node_of tr of None \<Rightarrow> 8 | Some g \<Rightarrow> g) \<le> int outlier_idx \<and>
             int outlier_idx < int k * (case gpus_per_node_of tr of None \<Rightarrow> 8 | Some g \<Rightarrow> g)
                                + (case gpus_per_node_of tr of None \<Rightarrow> 8 | Some g \<Rightarrow> g))) \<and>
         (\<forall>e \<in> set (analyze_node_performance tr). hostname e = hs ! index e)"
  by (auto simp: analyze_node_performance_hosts[OF assms] slow_node_entry_def node_has_outlier_def Let_def)

lemma ten_tests_outliers:
  "all_bandwidths_of [[10], [10], [10], [10], [10], [10], [10], [10], [10], [0]] =
     [10, 10, 10, 10, 10, 10, 10, 10, 10, 0]"
  "detect_outliers_zscore [10, 10, 10, 10, 10, 10, 10, 10, 10, 0] 2 = [9]"
  "detect_outliers_iqr [10, 10, 10, 10, 10, 10, 10, 10, 10, 0] (3 / 2) = [9]"
  by (simp_all add: all_bandwidths_of_def detect_outliers_zscore_def detect_outliers_iqr_def
      np_std_def np_mean_def np_percentile_def Let_def upt_rec[of _ "numeral _"])

theorem slow_nodes_flagged_by_both_methods_witness:
  "tests_of ten_tests = Some [[10], [10], [10], [10], [10], [10], [10], [10], [10], [0]] \<and>
   hosts_of ten_tests = Some [''n0'', ''n1'', ''n2'', ''n3'', ''n4''] \<and>
   9 \<in> set (detect_outliers_zscore [10, 10, 10, 10, 10, 10, 10, 10, 10, 0] 2) \<and>
   9 \<in> set (detect_outliers_iqr [10, 10, 10, 10, 10, 10, 10, 10, 10, 0] 1.5) \<and>
   (\<exists>e \<in> set (analyze_node_performance ten_tests). index e = 4) \<and>
   \<not> (\<exists>e \<in> set (analyze_node_performance ten_tests). index e = 3)"
proof -
  have t: "tests_of ten_tests = Some [[10], [10], [10], [10], [10], [10], [10], [10], [10], [0]]"
    and h: "hosts_of ten_tests = Some [''n0'', ''n1'', ''n2'', ''n3'', ''n4'']"
    and g: "gpus_per_node_of ten_tests = Some 2"
    by (simp_all add: ten_tests_def)
  have z: "9 \<in> set (detect_outliers_zscore [10, 10, 10, 10, 10, 10, 10, 10, 10, 0] 2)"
    and i: "9 \<in> set (detect_outliers_iqr [10, 10, 10, 10, 10, 10, 10, 10, 10, 0] 1.5)"
    by (simp_all add: ten_tests_outliers)
  have four: "\<exists>e \<in> set (analyze_node_performance ten_tests). index e = 4"
    using slow_nodes_flagged_by_both_methods[OF t h, of 4]
    by (simp add: ten_tests_outliers g)
  have three: "\<not> (\<exists>e \<in> set (analyze_node_performance ten_tests). index e = 3)"
    using slow_nodes_flagged_by_both_methods[OF t h, of 3]
    by (simp add: ten_tests_outliers g)
  from t h z i four three show ?thesis by (intro conjI)
qed

lemma four_tests_stats:
  "all_bandwidths_of [[1], [7], [7], [9]] = [1, 7, 7, 9]"
  "np_mean [1, 7, 7, 9] = 6"
  "np_std [1, 7, 7, 9] = 3"
  "np_percentile [1, 7, 7, 9] 25 = 11 / 2"
  "np_percentile [1, 7, 7, 9] 75 = 15 / 2"
  by (simp_all add: all_bandwidths_of_def np_std_def np_mean_def np_percentile_def Let_def)

text \<open>
  C10, as stated, fails: with one GPU per host and the readings 1, 7, 7, 9, the first host
  is an outlier by the IQR method only, and it gets no entry at all, so it is not
  classified as "medium" either.
\<close>

theorem one_method_outlier_not_reported:
  "detect_outliers_iqr [1, 7, 7, 9] 1.5 = [0] \<and>
   detect_outliers_zscore [1, 7, 7, 9] 2 = [] \<and>
   analyze_node_performance four_tests = []"
proof -
  have i: "detect_outliers_iqr [1, 7, 7, 9] 1.5 = [0]"
    by (simp add: detect_outliers_iqr_def four_tests_stats Let_def upt_rec[of _ "numeral _"])
  have z: "detect_outliers_zscore [1, 7, 7, 9] 2 = []"
    by (simp add: detect_outliers_zscore_def four_tests_stats Let_def upt_rec[of _ "numeral _"])
  have "analyze_node_performance four_tests = []"
    by (simp add: analyze_node_performance_def four_tests_def four_tests_stats(1) i z
        node_has_outlier_def Let_def)
  with i z show ?thesis by simp
qed

end
